theory Spec2Isabelle
  imports Complex_Main "HOL-Library.Word" "HOL-Library.Sublist"
begin

section \<open>Strings and numbers of the source language\<close>

text \<open>
  A JavaScript string is a sequence of 16-bit code units; \<open>text.length\<close> is the number
  of code units. Literals of the source are written as HOL strings and converted with
  \<open>utf16\<close> (all of them are ASCII).
\<close>

type_synonym ustring = "16 word list"

definition utf16 :: "string \<Rightarrow> ustring" where
  "utf16 s = map (\<lambda>c. of_nat (of_char c)) s"

text \<open>
  The class \<open>\s\<close> of a regular expression and the characters removed by
  \<open>String.prototype.trim\<close> are the same set: WhiteSpace and LineTerminator of
  ECMA-262 (TAB, LF, VT, FF, CR, SP, NBSP, U+1680, U+2000 to U+200A, U+2028, U+2029,
  U+202F, U+205F, U+3000, U+FEFF).
\<close>

definition isWhiteSpace :: "16 word \<Rightarrow> bool" where
  "isWhiteSpace c \<longleftrightarrow>
     c = 0x09 \<or> c = 0x0A \<or> c = 0x0B \<or> c = 0x0C \<or> c = 0x0D \<or> c = 0x20 \<or> c = 0xA0 \<or>
     c = 0x1680 \<or> (0x2000 \<le> c \<and> c \<le> 0x200A) \<or> c = 0x2028 \<or> c = 0x2029 \<or>
     c = 0x202F \<or> c = 0x205F \<or> c = 0x3000 \<or> c = 0xFEFF"

text \<open>\<open>text.trim()\<close>: white space removed from both ends.\<close>

definition trim :: "ustring \<Rightarrow> ustring" where
  "trim s = rev (dropWhile isWhiteSpace (rev (dropWhile isWhiteSpace s)))"

text \<open>
  \<open>text.split(/\s+/)\<close>: the pieces of the text between the maximal runs of white space.
  The pattern does not match the empty string, so the empty text gives one empty piece,
  and a text that starts or ends with white space gives an empty first or last piece.
\<close>

function split_ws :: "ustring \<Rightarrow> ustring list" where
  "split_ws s =
     (let piece = takeWhile (\<lambda>c. \<not> isWhiteSpace c) s;
          rest = dropWhile (\<lambda>c. \<not> isWhiteSpace c) s
      in if rest = [] then [piece]
         else piece # split_ws (dropWhile isWhiteSpace rest))"
  by pat_completeness auto
termination
proof (relation "measure length")
  show "wf (measure length)" by simp
next
  fix s :: ustring and piece rest
  assume r: "rest = dropWhile (\<lambda>c. \<not> isWhiteSpace c) s" and ne: "rest \<noteq> []"
  from ne obtain c cs where rc: "rest = c # cs" by (cases rest) auto
  have "length (dropWhile isWhiteSpace rest) \<le> length rest"
    by (rule length_dropWhile_le)
  moreover have "isWhiteSpace c"
    using r rc dropWhile_eq_Cons_conv [of "\<lambda>c. \<not> isWhiteSpace c" s c cs] by simp
  then have "length (dropWhile isWhiteSpace rest) \<le> length cs"
    using rc by (simp add: length_dropWhile_le)
  moreover have "length rest \<le> length s"
    using r by (simp add: length_dropWhile_le)
  ultimately show "(dropWhile isWhiteSpace rest, s) \<in> measure length"
    using rc by simp
qed

declare split_ws.simps [simp del]

text \<open>
  A JavaScript number is an IEEE-754 double. The model keeps the finite values as reals
  (exact arithmetic, no rounding, one zero) and the three special values apart.
\<close>

datatype number = Fin real | PosInfinity | NegInfinity | NaN

fun js_times :: "number \<Rightarrow> number \<Rightarrow> number" where
  "js_times NaN _ = NaN"
| "js_times _ NaN = NaN"
| "js_times (Fin x) (Fin y) = Fin (x * y)"
| "js_times (Fin x) PosInfinity = (if x = 0 then NaN else if 0 < x then PosInfinity else NegInfinity)"
| "js_times (Fin x) NegInfinity = (if x = 0 then NaN else if 0 < x then NegInfinity else PosInfinity)"
| "js_times PosInfinity (Fin y) = (if y = 0 then NaN else if 0 < y then PosInfinity else NegInfinity)"
| "js_times NegInfinity (Fin y) = (if y = 0 then NaN else if 0 < y then NegInfinity else PosInfinity)"
| "js_times PosInfinity PosInfinity = PosInfinity"
| "js_times PosInfinity NegInfinity = NegInfinity"
| "js_times NegInfinity PosInfinity = NegInfinity"
| "js_times NegInfinity NegInfinity = PosInfinity"

text \<open>Division by the zero of the model is division by \<open>+0\<close>.\<close>

fun js_divide :: "number \<Rightarrow> number \<Rightarrow> number" where
  "js_divide NaN _ = NaN"
| "js_divide _ NaN = NaN"
| "js_divide (Fin x) (Fin y) =
     (if y = 0 then (if x = 0 then NaN else if 0 < x then PosInfinity else NegInfinity)
      else Fin (x / y))"
| "js_divide (Fin x) PosInfinity = Fin 0"
| "js_divide (Fin x) NegInfinity = Fin 0"
| "js_divide PosInfinity (Fin y) = (if 0 \<le> y then PosInfinity else NegInfinity)"
| "js_divide NegInfinity (Fin y) = (if 0 \<le> y then NegInfinity else PosInfinity)"
| "js_divide PosInfinity PosInfinity = NaN"
| "js_divide PosInfinity NegInfinity = NaN"
| "js_divide NegInfinity PosInfinity = NaN"
| "js_divide NegInfinity NegInfinity = NaN"

text \<open>The comparisons \<open>a < b\<close> and \<open>a <= b\<close>: false as soon as one side is NaN.\<close>

fun js_less :: "number \<Rightarrow> number \<Rightarrow> bool" where
  "js_less NaN _ = False"
| "js_less _ NaN = False"
| "js_less (Fin x) (Fin y) = (x < y)"
| "js_less (Fin x) PosInfinity = True"
| "js_less (Fin x) NegInfinity = False"
| "js_less PosInfinity _ = False"
| "js_less NegInfinity (Fin y) = True"
| "js_less NegInfinity PosInfinity = True"
| "js_less NegInfinity NegInfinity = False"

fun js_le :: "number \<Rightarrow> number \<Rightarrow> bool" where
  "js_le NaN _ = False"
| "js_le _ NaN = False"
| "js_le a b = (a = b \<or> js_less a b)"

text \<open>\<open>Math.min(a, b)\<close>.\<close>

fun js_min :: "number \<Rightarrow> number \<Rightarrow> number" where
  "js_min NaN _ = NaN"
| "js_min _ NaN = NaN"
| "js_min a b = (if js_less b a then b else a)"

text \<open>\<open>a + b\<close>.\<close>

fun js_plus :: "number \<Rightarrow> number \<Rightarrow> number" where
  "js_plus NaN _ = NaN"
| "js_plus _ NaN = NaN"
| "js_plus (Fin x) (Fin y) = Fin (x + y)"
| "js_plus (Fin x) b = b"
| "js_plus a (Fin y) = a"
| "js_plus PosInfinity PosInfinity = PosInfinity"
| "js_plus NegInfinity NegInfinity = NegInfinity"
| "js_plus PosInfinity NegInfinity = NaN"
| "js_plus NegInfinity PosInfinity = NaN"

section \<open>Duration estimate\<close>

text \<open>
  \<open>estimateDuration(text, rate)\<close>. The callers always pass the rate (the default 1 of
  the parameter is never used).
\<close>

definition estimateDuration :: "ustring \<Rightarrow> number \<Rightarrow> number" where
  "estimateDuration text rate =
     (let wordsPerMinute = js_times (Fin 155) rate;
          wordCount = length (split_ws text)
      in js_times (js_divide (Fin (real wordCount)) wordsPerMinute) (Fin 60))"

section \<open>Progress of the audio player\<close>

text \<open>
  The state of the \<open>AudioPlayer\<close> component: \<open>progress\<close>, \<open>currentTime\<close> and
  \<open>duration\<close>, all initially 0.
\<close>

record player =
  progress :: number
  currentTime :: number
  duration :: number

definition player_init :: player where
  "player_init = \<lparr>progress = Fin 0, currentTime = Fin 0, duration = Fin 0\<rparr>"

text \<open>
  The value passed to \<open>setProgress\<close> by a tick of the interval:
  \<open>Math.min(duration > 0 ? (newTime / duration) * 100 : 0, 100)\<close>.
\<close>

definition progressPercentage :: "number \<Rightarrow> number \<Rightarrow> number" where
  "progressPercentage newTime d =
     (if js_less (Fin 0) d then js_times (js_divide newTime d) (Fin 100) else Fin 0)"

definition progressAt :: "number \<Rightarrow> number \<Rightarrow> number" where
  "progressAt newTime d = js_min (progressPercentage newTime d) (Fin 100)"

text \<open>
  The three effects of the component: the duration follows the text and the rate; while
  playing and not paused a tick every 100 ms adds 0.1 to the time and sets the progress;
  when neither playing nor paused, progress and time are reset.
\<close>

datatype player_event = SetDuration ustring number | Tick | Reset

fun player_step :: "player \<Rightarrow> player_event \<Rightarrow> player" where
  "player_step p (SetDuration text rate) = p\<lparr>duration := estimateDuration text rate\<rparr>"
| "player_step p Tick =
     (let newTime = js_plus (currentTime p) (Fin 0.1)
      in p\<lparr>progress := progressAt newTime (duration p), currentTime := newTime\<rparr>)"
| "player_step p Reset = p\<lparr>progress := Fin 0, currentTime := Fin 0\<rparr>"

definition player_run :: "player_event list \<Rightarrow> player" where
  "player_run evs = foldl player_step player_init evs"

section \<open>The POST handler of the text-to-speech route\<close>

text \<open>
  The value of \<open>await request.json()\<close>: a JSON value. A property that is absent reads
  as \<open>undefined\<close>, modelled by \<open>None\<close>.
\<close>

datatype json =
  JNull | JBool bool | JNum number | JStr ustring | JArr "json list"
| JObj "(ustring \<times> json) list"

text \<open>
  Reading a property of the body, for the five names the handler reads (none of them is
  a property of a string, a number, a boolean or an array). For a key given twice,
  \<open>JSON.parse\<close> keeps the last value.
\<close>

fun getProp :: "json \<Rightarrow> ustring \<Rightarrow> json option" where
  "getProp (JObj kvs) k = map_of (rev kvs) k"
| "getProp _ k = None"

text \<open>\<open>!v\<close> is \<open>\<not> truthy v\<close>.\<close>

fun truthy :: "json option \<Rightarrow> bool" where
  "truthy None = False"
| "truthy (Some JNull) = False"
| "truthy (Some (JBool b)) = b"
| "truthy (Some (JNum n)) = (n \<noteq> Fin 0 \<and> n \<noteq> NaN)"
| "truthy (Some (JStr s)) = (s \<noteq> [])"
| "truthy (Some (JArr _)) = True"
| "truthy (Some (JObj _)) = True"

datatype js_type = TUndefined | TObject | TBoolean | TNumber | TString

fun typeof :: "json option \<Rightarrow> js_type" where
  "typeof None = TUndefined"
| "typeof (Some JNull) = TObject"
| "typeof (Some (JBool _)) = TBoolean"
| "typeof (Some (JNum _)) = TNumber"
| "typeof (Some (JStr _)) = TString"
| "typeof (Some (JArr _)) = TObject"
| "typeof (Some (JObj _)) = TObject"

text \<open>
  The first check of the handler,
  \<open>!text || typeof text !== 'string' || text.trim().length === 0\<close>. The disjunction is
  evaluated from the left and stops at the first true disjunct, so the last one is
  evaluated on strings only.
\<close>

fun textRejected :: "json option \<Rightarrow> bool" where
  "textRejected (Some (JStr s)) =
     (\<not> truthy (Some (JStr s)) \<or> typeof (Some (JStr s)) \<noteq> TString \<or> length (trim s) = 0)"
| "textRejected v = (\<not> truthy v \<or> typeof v \<noteq> TString)"

text \<open>\<open>Math.max(a, b)\<close>.\<close>

fun js_max :: "number \<Rightarrow> number \<Rightarrow> number" where
  "js_max NaN _ = NaN"
| "js_max _ NaN = NaN"
| "js_max a b = (if js_less a b then b else a)"

record settings_out =
  out_text :: ustring
  out_rate :: number
  out_pitch :: number
  out_volume :: number
  out_voiceName :: "json option"

datatype payload =
  ErrorPayload ustring
| InfoPayload ustring settings_out ustring "ustring list"

record response =
  status :: nat
  payload :: payload

definition msg_text_required :: ustring where
  "msg_text_required = utf16 ''Text is required and must be a non-empty string''"

definition msg_text_too_long :: ustring where
  "msg_text_too_long = utf16 ''Text must be less than 5000 characters''"

definition internal_server_error :: response where
  "internal_server_error =
     \<lparr>status = 500, payload = ErrorPayload (utf16 ''Internal server error'')\<rparr>"

text \<open>A destructuring default \<open>x = 1\<close> applies when the property reads as undefined.\<close>

definition withDefault :: "json option \<Rightarrow> json" where
  "withDefault v = (case v of None \<Rightarrow> JNum (Fin 1) | Some j \<Rightarrow> j)"

text \<open>
  \<open>POST(request)\<close>. The argument is the outcome of \<open>request.json()\<close>: \<open>None\<close> when it
  throws (the body is not JSON). Destructuring \<open>null\<close> throws as well. \<open>toNumber\<close> is the
  conversion that \<open>Math.min\<close> applies to its argument, a primitive of the language; for
  some objects and arrays it throws a TypeError (an object with an own \<open>toString\<close> that
  is not a function, say), which is \<open>None\<close> here. The three conversions run in the order
  rate, pitch, volume. Every throw is inside the \<open>try\<close>, caught, and answered with 500.
  A text that passes the first check is a string, so the last branch of the case on the
  text is never taken.
\<close>

definition POST :: "(json \<Rightarrow> number option) \<Rightarrow> json option \<Rightarrow> response" where
  "POST toNumber request_json =
     (case request_json of
        None \<Rightarrow> internal_server_error
      | Some JNull \<Rightarrow> internal_server_error
      | Some body \<Rightarrow>
          (let text = getProp body (utf16 ''text'');
               rate = withDefault (getProp body (utf16 ''rate''));
               pitch = withDefault (getProp body (utf16 ''pitch''));
               volume = withDefault (getProp body (utf16 ''volume''));
               voiceName = getProp body (utf16 ''voiceName'')
           in if textRejected text
              then \<lparr>status = 400, payload = ErrorPayload msg_text_required\<rparr>
              else (case text of
                Some (JStr s) \<Rightarrow>
                  if length s > 5000
                  then \<lparr>status = 400, payload = ErrorPayload msg_text_too_long\<rparr>
                  else (case toNumber rate of
                    None \<Rightarrow> internal_server_error
                  | Some r \<Rightarrow>
                  (case toNumber pitch of
                    None \<Rightarrow> internal_server_error
                  | Some p \<Rightarrow>
                  (case toNumber volume of
                    None \<Rightarrow> internal_server_error
                  | Some v \<Rightarrow>
                      \<lparr>status = 200,
                       payload = InfoPayload
                         (utf16 ''Server-side TTS not implemented. Please use client-side Web Speech API.'')
                         \<lparr>out_text = trim s,
                          out_rate = js_max (Fin 0.1) (js_min (Fin 10) r),
                          out_pitch = js_max (Fin 0) (js_min (Fin 2) p),
                          out_volume = js_max (Fin 0) (js_min (Fin 1) v),
                          out_voiceName = voiceName\<rparr>
                         (utf16 ''Use the Web Speech API in the browser for text-to-speech conversion'')
                         [utf16 ''Google Text-to-Speech API'', utf16 ''Amazon Polly'',
                          utf16 ''Microsoft Speech Services'',
                          utf16 ''Azure Cognitive Services Speech'']\<rparr>)))
              | _ \<Rightarrow> internal_server_error)))"

text \<open>
  An instance of the conversion, for the examples: a number converts to itself, null to
  0, a boolean to 0 or 1; an object with an own property \<open>toString\<close> (a JSON value, so
  not a function) makes the conversion throw, any other object gives NaN. Strings and
  arrays, which the examples do not convert, are given NaN.
\<close>

definition sample_toNumber :: "json \<Rightarrow> number option" where
  "sample_toNumber j =
     (case j of
        JNum n \<Rightarrow> Some n
      | JNull \<Rightarrow> Some (Fin 0)
      | JBool b \<Rightarrow> Some (Fin (if b then 1 else 0))
      | JObj kvs \<Rightarrow> (if map_of kvs (utf16 ''toString'') = None then Some NaN else None)
      | _ \<Rightarrow> Some NaN)"

section \<open>The text export\<close>

text \<open>
  The voice of the settings is a \<open>SpeechSynthesisVoice\<close> of the browser or null; the code
  reads its \<open>name\<close> and \<open>lang\<close>.
\<close>

record voice =
  name :: ustring
  lang :: ustring

record VoiceSettings =
  rate :: number
  pitch :: number
  volume :: number
  voice :: "voice option"

text \<open>A \<open>Blob\<close> built from one string: its text and its MIME type.\<close>

record blob =
  content :: ustring
  mime :: ustring

definition LF :: ustring where
  "LF = [0x0A]"

text \<open>\<open>settings.voice?.name || 'Default'\<close>: the default replaces a missing or empty value.\<close>

definition orDefault :: "ustring option \<Rightarrow> ustring" where
  "orDefault v = (case v of None \<Rightarrow> utf16 ''Default''
                  | Some s \<Rightarrow> if s = [] then utf16 ''Default'' else s)"

text \<open>
  \<open>createTextFile(text, settings)\<close>. The template converts the three numbers to strings
  with the conversion of the language, \<open>numStr\<close>, and reads the clock:
  \<open>generated\<close> is the value of \<open>new Date().toLocaleString()\<close>.
\<close>

definition createTextFile ::
  "(number \<Rightarrow> ustring) \<Rightarrow> ustring \<Rightarrow> ustring \<Rightarrow> VoiceSettings \<Rightarrow> blob" where
  "createTextFile numStr generated text settings =
     \<lparr>content =
        utf16 ''TEXT-TO-SPEECH CONTENT'' @ LF @
        utf16 ''========================'' @ LF @
        LF @
        utf16 ''Original Text:'' @ LF @
        text @ LF @
        LF @
        utf16 ''Voice Settings:'' @ LF @
        utf16 ''- Rate: '' @ numStr (rate settings) @ utf16 ''x'' @ LF @
        utf16 ''- Pitch: '' @ numStr (pitch settings) @ LF @
        utf16 ''- Volume: '' @ numStr (volume settings) @ LF @
        utf16 ''- Voice: '' @ orDefault (map_option name (voice settings)) @ LF @
        utf16 ''- Language: '' @ orDefault (map_option lang (voice settings)) @ LF @
        LF @
        utf16 ''Generated: '' @ generated @ LF @
        LF @
        utf16 ''NOTE: Due to browser security limitations, the actual speech audio cannot be directly '' @ LF @
        utf16 ''captured to a file. Use the '' @ [0x22] @ utf16 ''Play'' @ [0x22] @
          utf16 '' button in the application to hear the speech.'' @ LF @
        LF @
        utf16 ''For recording actual speech audio, you would need:'' @ LF @
        utf16 ''1. External screen/audio recording software'' @ LF @
        utf16 ''2. Server-side TTS services (Google Cloud TTS, Amazon Polly, etc.)'' @ LF @
        utf16 ''3. Browser extensions with special permissions'' @ LF,
      mime = utf16 ''text/plain''\<rparr>"

text \<open>
  The conversion of a number to a string (\<open>Number::toString\<close> of ECMA-262), here for
  the special values and for finite values written with their decimal digits: the digits
  of the integer part and, when the value is not an integer, a point and the digits of
  the fraction (at most 20). This is what the language prints for the values of the
  sliders (multiples of 0.1 between 0 and 2); it prints very large and very small values
  with an exponent, which this function does not do.
\<close>

function natDigits :: "nat \<Rightarrow> ustring" where
  "natDigits n =
     (if n < 10 then [of_nat (48 + n)]
      else natDigits (n div 10) @ [of_nat (48 + n mod 10)])"
  by pat_completeness auto
termination
  by (relation "measure id") auto

declare natDigits.simps [simp del]

fun fracDigits :: "nat \<Rightarrow> real \<Rightarrow> ustring" where
  "fracDigits 0 f = []"
| "fracDigits (Suc k) f =
     (if f = 0 then []
      else of_nat (48 + nat \<lfloor>10 * f\<rfloor>) # fracDigits k (10 * f - of_int \<lfloor>10 * f\<rfloor>))"

definition numberToString :: "number \<Rightarrow> ustring" where
  "numberToString n =
     (case n of
        NaN \<Rightarrow> utf16 ''NaN''
      | PosInfinity \<Rightarrow> utf16 ''Infinity''
      | NegInfinity \<Rightarrow> utf16 ''-Infinity''
      | Fin x \<Rightarrow>
          (let a = \<bar>x\<bar>; f = a - of_int \<lfloor>a\<rfloor>
           in (if x < 0 then utf16 ''-'' else []) @ natDigits (nat \<lfloor>a\<rfloor>) @
              (if f = 0 then [] else utf16 ''.'' @ fracDigits 20 f)))"

section \<open>The speech manager\<close>

text \<open>
  \<open>TTSOptions\<close>: the text and the optional voice, rate, pitch and volume (\<open>None\<close> is a
  property left out; for the voice also null).
\<close>

record TTSOptions =
  opt_text :: ustring
  opt_voice :: "voice option"
  opt_rate :: "number option"
  opt_pitch :: "number option"
  opt_volume :: "number option"

text \<open>
  An utterance is an object: \<open>uid\<close> is its identity, given at allocation, so that two
  utterances of the same text are different objects.
\<close>

record SpeechSynthesisUtterance =
  uid :: nat
  utext :: ustring
  uvoice :: "voice option"
  urate :: number
  upitch :: number
  uvolume :: number

text \<open>\<open>options.rate || 1\<close>: 1 replaces a missing value, 0 and NaN.\<close>

definition orOne :: "number option \<Rightarrow> number" where
  "orOne v = (case v of None \<Rightarrow> Fin 1
              | Some n \<Rightarrow> if n = Fin 0 \<or> n = NaN then Fin 1 else n)"

definition createUtterance :: "TTSOptions \<Rightarrow> nat \<Rightarrow> SpeechSynthesisUtterance" where
  "createUtterance options k =
     \<lparr>uid = k, utext = opt_text options, uvoice = opt_voice options,
      urate = orOne (opt_rate options), upitch = orOne (opt_pitch options),
      uvolume = orOne (opt_volume options)\<rparr>"

text \<open>
  The synthesis engine is \<open>window.speechSynthesis\<close> of the browser, not code of the
  repository. The model keeps what the Web Speech API defines for the four methods the
  manager calls: the engine holds a queue of utterances, of which it speaks the first;
  \<open>speak\<close> appends to the queue, \<open>cancel\<close> removes all utterances from it,
  \<open>pause\<close> and \<open>resume\<close> set and clear the paused state. \<open>calls\<close> records the
  calls in the order the manager makes them.
\<close>

datatype synth_call =
  CallSpeak SpeechSynthesisUtterance | CallPause | CallResume | CallCancel

record SpeechSynthesis =
  queue :: "SpeechSynthesisUtterance list"
  paused :: bool
  calls :: "synth_call list"

definition synth_speak :: "SpeechSynthesisUtterance \<Rightarrow> SpeechSynthesis \<Rightarrow> SpeechSynthesis" where
  "synth_speak u e = e\<lparr>queue := queue e @ [u], calls := calls e @ [CallSpeak u]\<rparr>"

definition synth_cancel :: "SpeechSynthesis \<Rightarrow> SpeechSynthesis" where
  "synth_cancel e = e\<lparr>queue := [], calls := calls e @ [CallCancel]\<rparr>"

definition synth_pause :: "SpeechSynthesis \<Rightarrow> SpeechSynthesis" where
  "synth_pause e = e\<lparr>paused := True, calls := calls e @ [CallPause]\<rparr>"

definition synth_resume :: "SpeechSynthesis \<Rightarrow> SpeechSynthesis" where
  "synth_resume e = e\<lparr>paused := False, calls := calls e @ [CallResume]\<rparr>"

text \<open>
  When the engine has spoken an utterance, or gives it up with an error, the utterance
  leaves the queue.
\<close>

definition synth_done :: "nat \<Rightarrow> SpeechSynthesis \<Rightarrow> SpeechSynthesis" where
  "synth_done k e = e\<lparr>queue := filter (\<lambda>u. uid u \<noteq> k) (queue e)\<rparr>"

text \<open>
  \<open>TextToSpeechManager\<close>. \<open>nextId\<close> is the identity the next utterance gets. Each
  call of \<open>speak\<close> returns a promise, settled by the handlers of its utterance;
  \<open>settled\<close> lists the promises settled so far, by the identity of their utterance
  (a promise is settled once: later calls of \<open>resolve\<close> and \<open>reject\<close> have no effect).
\<close>

datatype outcome = Resolved | Rejected ustring

record manager =
  synth :: SpeechSynthesis
  utterance :: "SpeechSynthesisUtterance option"
  isPlaying :: bool
  isPaused :: bool
  nextId :: nat
  settled :: "(nat \<times> outcome) list"

definition manager_init :: "SpeechSynthesis \<Rightarrow> manager" where
  "manager_init e =
     \<lparr>synth = e, utterance = None, isPlaying = False, isPaused = False,
      nextId = 0, settled = []\<rparr>"

definition settle :: "nat \<Rightarrow> outcome \<Rightarrow> (nat \<times> outcome) list \<Rightarrow> (nat \<times> outcome) list" where
  "settle k v l = (if k \<in> fst ` set l then l else l @ [(k, v)])"

definition stop :: "manager \<Rightarrow> manager" where
  "stop m = m\<lparr>synth := synth_cancel (synth m), isPlaying := False, isPaused := False\<rparr>"

text \<open>
  \<open>speak(options)\<close>: stop when playing, create the utterance, register its three
  handlers (\<open>onstart\<close>, \<open>onend\<close>, \<open>onerror\<close> below) and hand it to the engine.
\<close>

definition speak :: "TTSOptions \<Rightarrow> manager \<Rightarrow> manager" where
  "speak options m =
     (let m1 = (if isPlaying m then stop m else m);
          u = createUtterance options (nextId m1)
      in m1\<lparr>utterance := Some u, nextId := Suc (nextId m1),
            synth := synth_speak u (synth m1)\<rparr>)"

definition onstart :: "manager \<Rightarrow> manager" where
  "onstart m = m\<lparr>isPlaying := True, isPaused := False\<rparr>"

definition onend :: "nat \<Rightarrow> manager \<Rightarrow> manager" where
  "onend k m = m\<lparr>isPlaying := False, isPaused := False, settled := settle k Resolved (settled m)\<rparr>"

definition onerror :: "nat \<Rightarrow> ustring \<Rightarrow> manager \<Rightarrow> manager" where
  "onerror k err m =
     m\<lparr>isPlaying := False, isPaused := False,
       settled := settle k (Rejected (utf16 ''Speech synthesis error: '' @ err)) (settled m)\<rparr>"

definition pause :: "manager \<Rightarrow> manager" where
  "pause m =
     (if isPlaying m \<and> \<not> isPaused m
      then m\<lparr>synth := synth_pause (synth m), isPaused := True\<rparr>
      else m)"

definition resume :: "manager \<Rightarrow> manager" where
  "resume m =
     (if isPaused m
      then m\<lparr>synth := synth_resume (synth m), isPaused := False\<rparr>
      else m)"

record playback_state =
  st_isPlaying :: bool
  st_isPaused :: bool
  st_isIdle :: bool

definition getState :: "manager \<Rightarrow> playback_state" where
  "getState m =
     \<lparr>st_isPlaying = isPlaying m, st_isPaused = isPaused m,
      st_isIdle = (\<not> isPlaying m \<and> \<not> isPaused m)\<rparr>"

text \<open>
  What happens to a manager: calls of its methods, and the events of its utterances,
  which the engine delivers at times of its own. An end or error event of utterance
  \<open>k\<close> runs the handler of \<open>k\<close>, after the engine has dropped \<open>k\<close> from its queue.
\<close>

datatype event =
  Speak TTSOptions | Pause | Resume | Stop
| OnStart nat | OnEnd nat | OnError nat ustring

fun step :: "manager \<Rightarrow> event \<Rightarrow> manager" where
  "step m (Speak options) = speak options m"
| "step m Pause = pause m"
| "step m Resume = resume m"
| "step m Stop = stop m"
| "step m (OnStart k) = onstart m"
| "step m (OnEnd k) = onend k (m\<lparr>synth := synth_done k (synth m)\<rparr>)"
| "step m (OnError k err) = onerror k err (m\<lparr>synth := synth_done k (synth m)\<rparr>)"

definition run :: "manager \<Rightarrow> event list \<Rightarrow> manager" where
  "run m evs = foldl step m evs"

text \<open>
  Two values for examples: the engine of a page that has not spoken yet, and the options
  \<open>handlePlay\<close> passes for the text "Hello world" with the initial settings of the page.
\<close>

definition idle_engine :: SpeechSynthesis where
  "idle_engine = \<lparr>queue = [], paused = False, calls = []\<rparr>"

definition hello_options :: TTSOptions where
  "hello_options =
     \<lparr>opt_text = utf16 ''Hello world'', opt_voice = None, opt_rate = Some (Fin 1),
      opt_pitch = Some (Fin 1), opt_volume = Some (Fin 1)\<rparr>"

section \<open>Properties of the duration estimate\<close>

lemma split_ws_Nil: "split_ws [] = [[]]"
  by (simp add: split_ws.simps)

lemma split_ws_blank:
  assumes "\<forall>c \<in> set s. isWhiteSpace c" and "s \<noteq> []"
  shows "split_ws s = [[], []]"
proof -
  from assms obtain c cs where s: "s = c # cs" and c: "isWhiteSpace c"
    by (cases s) auto
  have rest: "dropWhile isWhiteSpace cs = []"
    using assms(1) s by simp
  show ?thesis
    using c by (subst split_ws.simps) (simp add: s rest split_ws_Nil)
qed

text \<open>
  For a text of white space only the word count is 1 (the empty text) or 2, so at a
  finite rate above 0 the estimate is above 0.
\<close>

lemma estimateDuration_blank:
  assumes "\<forall>c \<in> set T. isWhiteSpace c" and "0 < r"
  shows "estimateDuration T (Fin r) = Fin ((if T = [] then 1 else 2) / (155 * r) * 60)"
    and "estimateDuration T (Fin r) \<noteq> Fin 0"
proof -
  have "length (split_ws T) = (if T = [] then 1 else 2)"
    using assms(1) split_ws_blank [of T] by (simp add: split_ws_Nil)
  then show "estimateDuration T (Fin r) = Fin ((if T = [] then 1 else 2) / (155 * r) * 60)"
    using assms(2) by (simp add: estimateDuration_def)
  then show "estimateDuration T (Fin r) \<noteq> Fin 0"
    using assms(2) by simp
qed

text \<open>
  C1. The claim: for a text of white space only (the empty text included) and a rate
  above 0, the estimate is 0. The code counts the pieces of \<open>split\<close>, empty ones
  included: the empty text has one piece and a blank text has two, so at rate 1 the
  estimates are 60/155 and 120/155 seconds, not 0.
\<close>

theorem estimateDuration_blank_not_zero:
  "estimateDuration (utf16 []) (Fin 1) = Fin (60 / 155) \<and>
   estimateDuration (utf16 ''   '') (Fin 1) = Fin (120 / 155) \<and>
   estimateDuration (utf16 []) (Fin 1) \<noteq> Fin 0"
  by (simp add: estimateDuration_def split_ws.simps utf16_def isWhiteSpace_def)

text \<open>
  C7. For a fixed text and rates \<open>0 < r1 < r2\<close>, the estimate at \<open>r2\<close> is at most the
  estimate at \<open>r1\<close> (the comparison is the \<open><=\<close> of the source language).
\<close>

theorem estimateDuration_antimono:
  assumes "0 < r1" and "r1 < r2"
  shows "js_le (estimateDuration T (Fin r2)) (estimateDuration T (Fin r1))"
proof -
  define w where "w = real (length (split_ws T))"
  have w: "0 \<le> w" by (simp add: w_def)
  have "w / (155 * r2) \<le> w / (155 * r1)"
    using assms w by (intro divide_left_mono) auto
  then have "w / (155 * r2) * 60 \<le> w / (155 * r1) * 60"
    by simp
  then show ?thesis
    using assms by (auto simp: estimateDuration_def w_def)
qed

theorem estimateDuration_antimono_witness:
  "(0::real) < 1 \<and> (1::real) < 2 \<and>
   js_le (estimateDuration (utf16 ''Hello world'') (Fin 2))
         (estimateDuration (utf16 ''Hello world'') (Fin 1))"
  using estimateDuration_antimono [of 1 2 "utf16 ''Hello world''"] by simp

text \<open>
  C9. The text "Hello world" has two words, and at rate 1 the estimate is
  \<open>(2 / 155) * 60\<close> seconds.
\<close>

theorem estimateDuration_hello_world:
  "length (split_ws (utf16 ''Hello world'')) = 2 \<and>
   estimateDuration (utf16 ''Hello world'') (Fin 1) = Fin ((2 / 155) * 60)"
  by (simp add: estimateDuration_def split_ws.simps utf16_def isWhiteSpace_def)

section \<open>Properties of the progress\<close>

lemma progressAt_range:
  assumes "0 \<le> t"
  shows "\<exists>q. progressAt (Fin t) d = Fin q \<and> 0 \<le> q \<and> q \<le> 100"
  using assms by (cases d) (auto simp: progressAt_def progressPercentage_def)

lemma player_step_inv:
  assumes "\<exists>t q. currentTime p = Fin t \<and> 0 \<le> t \<and> progress p = Fin q \<and> 0 \<le> q \<and> q \<le> 100"
  shows "\<exists>t q. currentTime (player_step p e) = Fin t \<and> 0 \<le> t \<and>
               progress (player_step p e) = Fin q \<and> 0 \<le> q \<and> q \<le> 100"
proof (cases e)
  case (SetDuration s r)
  then show ?thesis using assms by simp
next
  case Tick
  from assms obtain t where t: "currentTime p = Fin t" "0 \<le> t" by blast
  have "0 \<le> t + 0.1" using t by simp
  from progressAt_range [OF this, of "duration p"] show ?thesis
    using Tick t by (auto simp: Let_def)
next
  case Reset
  then show ?thesis by simp
qed

lemma player_foldl_inv:
  assumes "\<exists>t q. currentTime p = Fin t \<and> 0 \<le> t \<and> progress p = Fin q \<and> 0 \<le> q \<and> q \<le> 100"
  shows "\<exists>t q. currentTime (foldl player_step p evs) = Fin t \<and> 0 \<le> t \<and>
               progress (foldl player_step p evs) = Fin q \<and> 0 \<le> q \<and> q \<le> 100"
  using assms
proof (induction evs arbitrary: p)
  case Nil
  then show ?case by simp
next
  case (Cons e evs)
  from player_step_inv [OF Cons.prems] have
    "\<exists>t q. currentTime (player_step p e) = Fin t \<and> 0 \<le> t \<and>
            progress (player_step p e) = Fin q \<and> 0 \<le> q \<and> q \<le> 100" .
  from Cons.IH [OF this] show ?case by simp
qed

text \<open>
  C6. After any sequence of duration changes, ticks and resets the displayed progress is
  a finite number in [0, 100]. For an elapsed time \<open>t \<ge> 0\<close> the value a tick displays is
  \<open>min 100 (t / d * 100)\<close> when the estimated duration \<open>d\<close> is above 0, and 0 when the
  estimated duration is 0 (no division takes place); it lies in [0, 100] for every
  duration, the special values included.
\<close>

theorem progress_clamped:
  "(\<exists>q. progress (player_run evs) = Fin q \<and> 0 \<le> q \<and> q \<le> 100) \<and>
   (0 \<le> t \<longrightarrow>
      (\<exists>q. progressAt (Fin t) d = Fin q \<and> 0 \<le> q \<and> q \<le> 100) \<and>
      (0 < x \<longrightarrow> progressAt (Fin t) (Fin x) = Fin (min 100 (t / x * 100))) \<and>
      progressPercentage (Fin t) (Fin 0) = Fin 0 \<and>
      progressAt (Fin t) (Fin 0) = Fin 0)"
proof -
  have init: "\<exists>t q. currentTime player_init = Fin t \<and> 0 \<le> t \<and>
                     progress player_init = Fin q \<and> 0 \<le> q \<and> q \<le> 100"
    by (simp add: player_init_def)
  have a: "\<exists>q. progress (player_run evs) = Fin q \<and> 0 \<le> q \<and> q \<le> 100"
    using player_foldl_inv [OF init, of evs] unfolding player_run_def by blast
  have b: "0 < x \<Longrightarrow> progressAt (Fin t) (Fin x) = Fin (min 100 (t / x * 100))"
    by (auto simp: progressAt_def progressPercentage_def min_def)
  have c: "progressPercentage (Fin t) (Fin 0) = Fin 0" "progressAt (Fin t) (Fin 0) = Fin 0"
    by (simp_all add: progressAt_def progressPercentage_def)
  show ?thesis
    using a b c progressAt_range [of t d] by blast
qed

theorem progress_clamped_witness:
  "(0::real) \<le> 3 \<and> (0::real) < 2 \<and>
   progress (player_run [SetDuration (utf16 ''Hello world'') (Fin 1), Tick, Tick]) = Fin (155 / 6) \<and>
   progressAt (Fin 3) (Fin 2) = Fin 100 \<and>
   progressAt (Fin 1) (Fin 2) = Fin 50 \<and>
   progressAt (Fin 3) (Fin 0) = Fin 0 \<and>
   progressAt (Fin 3) PosInfinity = Fin 0"
  using progress_clamped [of "[]" 3 "Fin 2" 2]
        progress_clamped [of "[]" 1 "Fin 2" 2]
  by (simp add: progressAt_def progressPercentage_def player_run_def player_init_def
        estimateDuration_def split_ws.simps utf16_def isWhiteSpace_def Let_def)

section \<open>Properties of the POST handler\<close>

lemma trim_blank:
  assumes "\<forall>c \<in> set s. isWhiteSpace c"
  shows "trim s = []"
proof -
  have h: "dropWhile isWhiteSpace s = []"
    using assms by (induction s) auto
  show ?thesis unfolding trim_def h by simp
qed

lemma textRejected_iff:
  "textRejected v \<longleftrightarrow> (\<forall>s. v \<noteq> Some (JStr s)) \<or> (\<exists>s. v = Some (JStr s) \<and> trim s = [])"
proof (cases v)
  case None
  then show ?thesis by simp
next
  case (Some j)
  then show ?thesis by (cases j) (auto simp: trim_def)
qed

text \<open>
  C5, as stated, fails: a text of 5001 spaces has length above 5000, and the answer is
  400 with the message of the first check, not "Text must be less than 5000 characters".
  And a body that is null has no text, and is answered with 500, not 400.
\<close>

theorem POST_blank_5001_counterexample:
  "length (replicate 5001 (0x20 :: 16 word)) > 5000 \<and>
   POST sample_toNumber (Some (JObj [(utf16 ''text'', JStr (replicate 5001 0x20))])) =
     \<lparr>status = 400, payload = ErrorPayload msg_text_required\<rparr> \<and>
   msg_text_required \<noteq> msg_text_too_long \<and>
   status (POST sample_toNumber (Some JNull)) = 500"
proof -
  have "trim (replicate 5001 (0x20 :: 16 word)) = []"
    by (rule trim_blank) (simp add: isWhiteSpace_def)
  then have "textRejected (Some (JStr (replicate 5001 0x20)))"
    by simp
  then have "POST sample_toNumber (Some (JObj [(utf16 ''text'', JStr (replicate 5001 0x20))])) =
     \<lparr>status = 400, payload = ErrorPayload msg_text_required\<rparr>"
    by (simp add: POST_def Let_def)
  moreover have "msg_text_required \<noteq> msg_text_too_long"
    by (simp add: msg_text_required_def msg_text_too_long_def utf16_def)
  moreover have "status (POST sample_toNumber (Some JNull)) = 500"
    by (simp add: POST_def internal_server_error_def)
  ultimately show ?thesis by simp
qed

text \<open>
  C5, amended. For a body that is a JSON value other than null, with \<open>text\<close> the value
  of its text property: if the text is missing, not a string, or empty after trimming,
  the answer is 400 with "Text is required and must be a non-empty string"; otherwise,
  if the text is longer than 5000 code units, the answer is 400 with "Text must be less
  than 5000 characters"; otherwise no 400 is returned (the answer is 200, or 500 when
  the conversion of a setting throws). A body that cannot be read (not JSON, or null) is
  answered with 500. So 400 is returned in the first two cases only.
\<close>

theorem POST_validation:
  "status (POST tn None) = 500 \<and> status (POST tn (Some JNull)) = 500 \<and>
   (body \<noteq> JNull \<longrightarrow>
     ((\<forall>s. getProp body (utf16 ''text'') \<noteq> Some (JStr s)) \<or>
      (\<exists>s. getProp body (utf16 ''text'') = Some (JStr s) \<and> trim s = []) \<longrightarrow>
        POST tn (Some body) = \<lparr>status = 400, payload = ErrorPayload msg_text_required\<rparr>) \<and>
     (getProp body (utf16 ''text'') = Some (JStr s) \<and> trim s \<noteq> [] \<longrightarrow>
        (length s > 5000 \<longrightarrow>
           POST tn (Some body) = \<lparr>status = 400, payload = ErrorPayload msg_text_too_long\<rparr>) \<and>
        (length s \<le> 5000 \<longrightarrow>
           status (POST tn (Some body)) \<noteq> 400 \<and>
           (status (POST tn (Some body)) = 200 \<or> status (POST tn (Some body)) = 500))))"
proof -
  have a: "status (POST tn None) = 500" "status (POST tn (Some JNull)) = 500"
    by (simp_all add: POST_def internal_server_error_def)
  have b: "POST tn (Some body) = \<lparr>status = 400, payload = ErrorPayload msg_text_required\<rparr>"
    if "body \<noteq> JNull" and "textRejected (getProp body (utf16 ''text''))"
    using that by (cases body) (simp_all add: POST_def Let_def)
  have c: "POST tn (Some body) = \<lparr>status = 400, payload = ErrorPayload msg_text_too_long\<rparr>"
    if "body \<noteq> JNull" and "getProp body (utf16 ''text'') = Some (JStr s)" and "trim s \<noteq> []"
      and "length s > 5000"
  proof -
    have "\<not> textRejected (getProp body (utf16 ''text''))"
      using that by (simp add: textRejected_iff)
    then show ?thesis
      using that by (cases body) (simp_all add: POST_def Let_def)
  qed
  have d: "status (POST tn (Some body)) = 200 \<or> status (POST tn (Some body)) = 500"
    if "body \<noteq> JNull" and "getProp body (utf16 ''text'') = Some (JStr s)" and "trim s \<noteq> []"
      and "length s \<le> 5000"
  proof -
    have "\<not> textRejected (getProp body (utf16 ''text''))"
      using that by (simp add: textRejected_iff)
    then show ?thesis
      using that
      by (cases body)
         (simp_all add: POST_def Let_def internal_server_error_def split: option.splits)
  qed
  show ?thesis
  proof (intro conjI impI)
    show "status (POST tn None) = 500" by (rule a)
    show "status (POST tn (Some JNull)) = 500" by (rule a)
  next
    assume "body \<noteq> JNull"
      and "(\<forall>s. getProp body (utf16 ''text'') \<noteq> Some (JStr s)) \<or>
           (\<exists>s. getProp body (utf16 ''text'') = Some (JStr s) \<and> trim s = [])"
    then show "POST tn (Some body) = \<lparr>status = 400, payload = ErrorPayload msg_text_required\<rparr>"
      using b by (simp add: textRejected_iff)
  next
    assume "body \<noteq> JNull" and "getProp body (utf16 ''text'') = Some (JStr s) \<and> trim s \<noteq> []"
      and "length s > 5000"
    then show "POST tn (Some body) = \<lparr>status = 400, payload = ErrorPayload msg_text_too_long\<rparr>"
      using c by simp
  next
    assume h: "body \<noteq> JNull" "getProp body (utf16 ''text'') = Some (JStr s) \<and> trim s \<noteq> []"
      "length s \<le> 5000"
    then have e: "status (POST tn (Some body)) = 200 \<or> status (POST tn (Some body)) = 500"
      using d by simp
    then show "status (POST tn (Some body)) \<noteq> 400" by auto
    from e show "status (POST tn (Some body)) = 200 \<or> status (POST tn (Some body)) = 500" .
  qed
qed

theorem POST_validation_witness:
  "JObj [(utf16 ''text'', JStr [])] \<noteq> JNull \<and>
   POST sample_toNumber (Some (JObj [(utf16 ''text'', JStr [])])) =
     \<lparr>status = 400, payload = ErrorPayload msg_text_required\<rparr> \<and>
   POST sample_toNumber (Some (JObj [(utf16 ''rate'', JNum (Fin 2))])) =
     \<lparr>status = 400, payload = ErrorPayload msg_text_required\<rparr> \<and>
   length (replicate 5001 (0x61 :: 16 word)) > 5000 \<and>
   POST sample_toNumber (Some (JObj [(utf16 ''text'', JStr (replicate 5001 0x61))])) =
     \<lparr>status = 400, payload = ErrorPayload msg_text_too_long\<rparr> \<and>
   length (utf16 ''Hello world'') \<le> 5000 \<and>
   status (POST sample_toNumber
     (Some (JObj [(utf16 ''text'', JStr (utf16 ''Hello world''))]))) \<noteq> 400 \<and>
   status (POST sample_toNumber
     (Some (JObj [(utf16 ''text'', JStr (utf16 ''Hello world''))]))) = 200 \<and>
   status (POST sample_toNumber
     (Some (JObj [(utf16 ''text'', JStr (utf16 ''hi'')),
                  (utf16 ''rate'', JObj [(utf16 ''toString'', JNum (Fin 1))])]))) \<noteq> 400 \<and>
   status (POST sample_toNumber
     (Some (JObj [(utf16 ''text'', JStr (utf16 ''hi'')),
                  (utf16 ''rate'', JObj [(utf16 ''toString'', JNum (Fin 1))])]))) = 500"
proof -
  have g1: "getProp (JObj [(utf16 ''text'', JStr [])]) (utf16 ''text'') = Some (JStr [])"
    by simp
  have e1: "trim ([] :: ustring) = []"
    by (simp add: trim_def)
  have r1: "POST sample_toNumber (Some (JObj [(utf16 ''text'', JStr [])])) =
     \<lparr>status = 400, payload = ErrorPayload msg_text_required\<rparr>"
    using POST_validation [of sample_toNumber "JObj [(utf16 ''text'', JStr [])]" "[]"] g1 e1
    by blast
  have g2: "\<forall>s. getProp (JObj [(utf16 ''rate'', JNum (Fin 2))]) (utf16 ''text'') \<noteq> Some (JStr s)"
    by (simp add: utf16_def)
  have r2: "POST sample_toNumber (Some (JObj [(utf16 ''rate'', JNum (Fin 2))])) =
     \<lparr>status = 400, payload = ErrorPayload msg_text_required\<rparr>"
    using POST_validation [of sample_toNumber "JObj [(utf16 ''rate'', JNum (Fin 2))]" "[]"] g2
    by blast
  have g3: "getProp (JObj [(utf16 ''text'', JStr (replicate 5001 0x61))]) (utf16 ''text'') =
      Some (JStr (replicate 5001 0x61))"
    by simp
  have "\<not> isWhiteSpace 0x61"
    by (simp add: isWhiteSpace_def)
  then have e3: "trim (replicate 5001 (0x61 :: 16 word)) \<noteq> []"
    by (simp add: trim_def)
  have l3: "length (replicate 5001 (0x61 :: 16 word)) > 5000"
    by simp
  have r3: "POST sample_toNumber (Some (JObj [(utf16 ''text'', JStr (replicate 5001 0x61))])) =
     \<lparr>status = 400, payload = ErrorPayload msg_text_too_long\<rparr>"
    using POST_validation [of sample_toNumber "JObj [(utf16 ''text'', JStr (replicate 5001 0x61))]"
             "replicate 5001 0x61"] g3 e3 l3
    by blast
  have g4: "getProp (JObj [(utf16 ''text'', JStr (utf16 ''Hello world''))]) (utf16 ''text'') =
      Some (JStr (utf16 ''Hello world''))"
    by simp
  have e4: "trim (utf16 ''Hello world'') \<noteq> []"
    by (simp add: trim_def utf16_def isWhiteSpace_def)
  have l4: "length (utf16 ''Hello world'') \<le> 5000"
    by (simp add: utf16_def)
  have r4: "status (POST sample_toNumber
      (Some (JObj [(utf16 ''text'', JStr (utf16 ''Hello world''))]))) \<noteq> 400"
    using POST_validation [of sample_toNumber "JObj [(utf16 ''text'', JStr (utf16 ''Hello world''))]"
             "utf16 ''Hello world''"] g4 e4 l4
    by blast
  have v4: "status (POST sample_toNumber
      (Some (JObj [(utf16 ''text'', JStr (utf16 ''Hello world''))]))) = 200"
    using e4 by (simp add: POST_def Let_def withDefault_def sample_toNumber_def utf16_def)
  have g5: "getProp (JObj [(utf16 ''text'', JStr (utf16 ''hi'')),
                  (utf16 ''rate'', JObj [(utf16 ''toString'', JNum (Fin 1))])]) (utf16 ''text'') =
      Some (JStr (utf16 ''hi''))"
    by (simp add: utf16_def)
  have e5: "trim (utf16 ''hi'') \<noteq> []"
    by (simp add: trim_def utf16_def isWhiteSpace_def)
  have l5: "length (utf16 ''hi'') \<le> 5000"
    by (simp add: utf16_def)
  have r5: "status (POST sample_toNumber
     (Some (JObj [(utf16 ''text'', JStr (utf16 ''hi'')),
                  (utf16 ''rate'', JObj [(utf16 ''toString'', JNum (Fin 1))])]))) \<noteq> 400"
    using POST_validation [of sample_toNumber
             "JObj [(utf16 ''text'', JStr (utf16 ''hi'')),
                    (utf16 ''rate'', JObj [(utf16 ''toString'', JNum (Fin 1))])]"
             "utf16 ''hi''"] g5 e5 l5
    by blast
  have v5: "status (POST sample_toNumber
     (Some (JObj [(utf16 ''text'', JStr (utf16 ''hi'')),
                  (utf16 ''rate'', JObj [(utf16 ''toString'', JNum (Fin 1))])]))) = 500"
    using e5
    by (simp add: POST_def Let_def withDefault_def sample_toNumber_def utf16_def
          internal_server_error_def)
  show ?thesis
    using r1 r2 l3 r3 l4 r4 v4 r5 v5 by simp
qed

section \<open>Properties of the text export\<close>

lemma sublist_skip: "sublist xs ys \<Longrightarrow> sublist xs (zs @ ys)"
  by (metis sublist_append_leftI sublist_order.order_trans)

lemma sublist_prefix_append: "sublist (a @ b) (a @ b @ ss)"
  by (metis append_assoc sublist_append_rightI)

lemma content_text:
  "sublist (text @ LF) (content (createTextFile numStr generated text settings))"
  unfolding createTextFile_def blob.simps
  by (intro sublist_skip [of _ _ "utf16 ''TEXT-TO-SPEECH CONTENT''"]
        sublist_skip [of _ _ "utf16 ''========================''"]
        sublist_skip [of _ _ "utf16 ''Original Text:''"]
        sublist_skip [of _ _ LF] sublist_prefix_append)

lemma content_rate:
  "sublist (utf16 ''- Rate: '' @ numStr (rate settings) @ utf16 ''x'' @ LF)
     (content (createTextFile numStr generated text settings))"
proof -
  have "sublist (utf16 ''- Rate: '' @ (numStr (rate settings) @ (utf16 ''x'' @ LF)))
          (utf16 ''- Rate: '' @ (numStr (rate settings) @ ((utf16 ''x'' @ LF) @ ss)))" for ss
    by (metis append_assoc sublist_append_rightI)
  then show ?thesis
    unfolding createTextFile_def blob.simps append_assoc
    by (intro sublist_skip [of _ _ "utf16 ''TEXT-TO-SPEECH CONTENT''"]
        sublist_skip [of _ _ "utf16 ''========================''"]
        sublist_skip [of _ _ "utf16 ''Original Text:''"]
        sublist_skip [of _ _ "utf16 ''Voice Settings:''"]
        sublist_skip [of _ _ "text"]
        sublist_skip [of _ _ LF]) simp
qed

lemma content_pitch:
  "sublist (utf16 ''- Pitch: '' @ numStr (pitch settings) @ LF)
     (content (createTextFile numStr generated text settings))"
proof -
  have "sublist (utf16 ''- Pitch: '' @ (numStr (pitch settings) @ LF))
          (utf16 ''- Pitch: '' @ (numStr (pitch settings) @ (LF @ ss)))" for ss
    by (metis append_assoc sublist_append_rightI)
  then show ?thesis
    unfolding createTextFile_def blob.simps append_assoc
    by (intro sublist_skip [of _ _ "utf16 ''TEXT-TO-SPEECH CONTENT''"]
        sublist_skip [of _ _ "utf16 ''========================''"]
        sublist_skip [of _ _ "utf16 ''Original Text:''"]
        sublist_skip [of _ _ "utf16 ''Voice Settings:''"]
        sublist_skip [of _ _ "utf16 ''- Rate: ''"]
        sublist_skip [of _ _ "numStr (rate settings)"]
        sublist_skip [of _ _ "utf16 ''x''"]
        sublist_skip [of _ _ "text"]
        sublist_skip [of _ _ LF]) simp
qed

lemma content_volume:
  "sublist (utf16 ''- Volume: '' @ numStr (volume settings) @ LF)
     (content (createTextFile numStr generated text settings))"
proof -
  have "sublist (utf16 ''- Volume: '' @ (numStr (volume settings) @ LF))
          (utf16 ''- Volume: '' @ (numStr (volume settings) @ (LF @ ss)))" for ss
    by (metis append_assoc sublist_append_rightI)
  then show ?thesis
    unfolding createTextFile_def blob.simps append_assoc
    by (intro sublist_skip [of _ _ "utf16 ''TEXT-TO-SPEECH CONTENT''"]
        sublist_skip [of _ _ "utf16 ''========================''"]
        sublist_skip [of _ _ "utf16 ''Original Text:''"]
        sublist_skip [of _ _ "utf16 ''Voice Settings:''"]
        sublist_skip [of _ _ "utf16 ''- Rate: ''"]
        sublist_skip [of _ _ "numStr (rate settings)"]
        sublist_skip [of _ _ "utf16 ''x''"]
        sublist_skip [of _ _ "utf16 ''- Pitch: ''"]
        sublist_skip [of _ _ "numStr (pitch settings)"]
        sublist_skip [of _ _ "text"]
        sublist_skip [of _ _ LF]) simp
qed

lemma content_nonempty: "content (createTextFile numStr generated text settings) \<noteq> []"
  by (simp add: createTextFile_def utf16_def)

lemma numberToString_1: "numberToString (Fin 1) = utf16 ''1''"
  by (simp add: numberToString_def natDigits.simps utf16_def)

text \<open>
  C2, as stated, fails. With the settings the page starts from (rate 1, pitch 1,
  volume 1, no voice) the file holds the lines \<open>- Rate: 1x\<close>, \<open>- Pitch: 1\<close> and
  \<open>- Volume: 1\<close>: the numbers as the language prints them. It holds no \<open>1.0\<close> and no
  \<open>100%\<close> (it has no character \<open>0\<close> and no character \<open>%\<close> at all).
\<close>

theorem createTextFile_format_counterexample:
  "sublist (utf16 ''- Rate: 1x'' @ LF)
     (content (createTextFile numberToString (utf16 ''9/9/1999, 9:19:19 PM'')
        (utf16 ''Hello world'')
        \<lparr>rate = Fin 1, pitch = Fin 1, volume = Fin 1, voice = None\<rparr>)) \<and>
   sublist (utf16 ''- Pitch: 1'' @ LF)
     (content (createTextFile numberToString (utf16 ''9/9/1999, 9:19:19 PM'')
        (utf16 ''Hello world'')
        \<lparr>rate = Fin 1, pitch = Fin 1, volume = Fin 1, voice = None\<rparr>)) \<and>
   sublist (utf16 ''- Volume: 1'' @ LF)
     (content (createTextFile numberToString (utf16 ''9/9/1999, 9:19:19 PM'')
        (utf16 ''Hello world'')
        \<lparr>rate = Fin 1, pitch = Fin 1, volume = Fin 1, voice = None\<rparr>)) \<and>
   \<not> sublist (utf16 ''1.0'')
     (content (createTextFile numberToString (utf16 ''9/9/1999, 9:19:19 PM'')
        (utf16 ''Hello world'')
        \<lparr>rate = Fin 1, pitch = Fin 1, volume = Fin 1, voice = None\<rparr>)) \<and>
   \<not> sublist (utf16 ''100%'')
     (content (createTextFile numberToString (utf16 ''9/9/1999, 9:19:19 PM'')
        (utf16 ''Hello world'')
        \<lparr>rate = Fin 1, pitch = Fin 1, volume = Fin 1, voice = None\<rparr>))"
proof -
  define s where "s = \<lparr>rate = Fin 1, pitch = Fin 1, volume = Fin 1, voice = None\<rparr>"
  define c where "c = content (createTextFile numberToString (utf16 ''9/9/1999, 9:19:19 PM'')
        (utf16 ''Hello world'') s)"
  have r: "sublist (utf16 ''- Rate: 1x'' @ LF) c"
    using content_rate [of numberToString s "utf16 ''9/9/1999, 9:19:19 PM''" "utf16 ''Hello world''"]
    by (simp add: c_def s_def numberToString_1 utf16_def)
  have p: "sublist (utf16 ''- Pitch: 1'' @ LF) c"
    using content_pitch [of numberToString s "utf16 ''9/9/1999, 9:19:19 PM''" "utf16 ''Hello world''"]
    by (simp add: c_def s_def numberToString_1 utf16_def)
  have v: "sublist (utf16 ''- Volume: 1'' @ LF) c"
    using content_volume [of numberToString s "utf16 ''9/9/1999, 9:19:19 PM''" "utf16 ''Hello world''"]
    by (simp add: c_def s_def numberToString_1 utf16_def)
  have none: "0x30 \<notin> set c \<and> 0x25 \<notin> set c"
    unfolding c_def s_def
    by (simp add: createTextFile_def numberToString_1 utf16_def LF_def orDefault_def)
  have a: "\<not> sublist (utf16 ''1.0'') c"
  proof
    assume "sublist (utf16 ''1.0'') c"
    then have "set (utf16 ''1.0'') \<subseteq> set c"
      by (rule set_mono_sublist)
    then have "0x30 \<in> set c"
      by (simp add: utf16_def)
    then show False using none by simp
  qed
  have b: "\<not> sublist (utf16 ''100%'') c"
  proof
    assume "sublist (utf16 ''100%'') c"
    then have "set (utf16 ''100%'') \<subseteq> set c"
      by (rule set_mono_sublist)
    then have "0x25 \<in> set c"
      by (simp add: utf16_def)
    then show False using none by simp
  qed
  show ?thesis
    using r p v a b unfolding c_def s_def by simp
qed

text \<open>
  C2, amended. For every text and every record of settings the file is not empty, it is
  of type \<open>text/plain\<close>, and it contains the text as given and the three numbers as the
  language converts them to strings: the rate followed by \<open>x\<close>, the pitch and the
  volume, each after its label and up to the end of its line.
\<close>

theorem createTextFile_contents:
  "content (createTextFile numStr generated text settings) \<noteq> [] \<and>
   mime (createTextFile numStr generated text settings) = utf16 ''text/plain'' \<and>
   sublist text (content (createTextFile numStr generated text settings)) \<and>
   sublist (utf16 ''- Rate: '' @ numStr (rate settings) @ utf16 ''x'' @ LF)
     (content (createTextFile numStr generated text settings)) \<and>
   sublist (utf16 ''- Pitch: '' @ numStr (pitch settings) @ LF)
     (content (createTextFile numStr generated text settings)) \<and>
   sublist (utf16 ''- Volume: '' @ numStr (volume settings) @ LF)
     (content (createTextFile numStr generated text settings))"
proof -
  have "sublist text (text @ LF)"
    by (rule sublist_append_rightI)
  then have "sublist text (content (createTextFile numStr generated text settings))"
    using content_text sublist_order.order_trans by blast
  moreover have "mime (createTextFile numStr generated text settings) = utf16 ''text/plain''"
    by (simp add: createTextFile_def)
  ultimately show ?thesis
    using content_nonempty content_rate content_pitch content_volume by blast
qed

section \<open>Properties of the speech manager\<close>

lemma step_flags:
  assumes "isPaused m \<longrightarrow> isPlaying m"
  shows "isPaused (step m e) \<longrightarrow> isPlaying (step m e)"
  using assms
  by (cases e)
     (auto simp: speak_def stop_def pause_def resume_def onstart_def onend_def onerror_def
        Let_def)

lemma run_flags:
  assumes "isPaused m \<longrightarrow> isPlaying m"
  shows "isPaused (run m evs) \<longrightarrow> isPlaying (run m evs)"
  using assms unfolding run_def
proof (induction evs arbitrary: m)
  case Nil
  then show ?case by simp
next
  case (Cons e evs)
  from step_flags [OF Cons.prems] have "isPaused (step m e) \<longrightarrow> isPlaying (step m e)" .
  from Cons.IH [OF this] show ?case by simp
qed




text \<open>
  C4. After a call of \<open>speak\<close> and any sequence of further calls and events, among them
  any number of pauses and resumes, \<open>stop\<close> leaves the manager idle: \<open>getState\<close>
  reports not playing, not paused, idle. The engine has been told to cancel, and its
  queue is empty.
\<close>

theorem stop_returns_to_idle:
  "getState (stop (run (speak options m) evs)) =
     \<lparr>st_isPlaying = False, st_isPaused = False, st_isIdle = True\<rparr> \<and>
   queue (synth (stop (run (speak options m) evs))) = [] \<and>
   calls (synth (stop (run (speak options m) evs))) =
     calls (synth (run (speak options m) evs)) @ [CallCancel] \<and>
   getState (stop (stop (run (speak options m) evs))) =
     getState (stop (run (speak options m) evs))"
  by (simp add: getState_def stop_def synth_cancel_def)

text \<open>
  C10. In every state the manager reaches from its initial state, by any sequence of
  calls of \<open>speak\<close>, \<open>pause\<close>, \<open>resume\<close>, \<open>stop\<close> and of start, end and error
  events, paused implies playing; so the state is exactly one of idle, playing and
  paused. There \<open>pause\<close> changes nothing unless the state is playing, and \<open>resume\<close>
  changes nothing unless the state is paused.
\<close>

theorem manager_states:
  "(isPaused (run (manager_init e) evs) \<longrightarrow> isPlaying (run (manager_init e) evs)) \<and>
   ((\<not> isPlaying (run (manager_init e) evs) \<and> \<not> isPaused (run (manager_init e) evs)) \<or>
    (isPlaying (run (manager_init e) evs) \<and> \<not> isPaused (run (manager_init e) evs)) \<or>
    (isPlaying (run (manager_init e) evs) \<and> isPaused (run (manager_init e) evs))) \<and>
   (\<not> (isPlaying (run (manager_init e) evs) \<and> \<not> isPaused (run (manager_init e) evs)) \<longrightarrow>
      pause (run (manager_init e) evs) = run (manager_init e) evs) \<and>
   (\<not> (isPlaying (run (manager_init e) evs) \<and> isPaused (run (manager_init e) evs)) \<longrightarrow>
      resume (run (manager_init e) evs) = run (manager_init e) evs)"
proof -
  define m where "m = run (manager_init e) evs"
  have "isPaused (manager_init e) \<longrightarrow> isPlaying (manager_init e)"
    by (simp add: manager_init_def)
  from run_flags [OF this, of evs] have inv: "isPaused m \<longrightarrow> isPlaying m"
    by (simp add: m_def)
  have "pause m = m" if "\<not> (isPlaying m \<and> \<not> isPaused m)"
    using that by (auto simp: pause_def)
  moreover have "resume m = m" if "\<not> (isPlaying m \<and> isPaused m)"
    using that inv by (auto simp: resume_def)
  ultimately show ?thesis
    using inv unfolding m_def by blast
qed

theorem manager_states_witness:
  "isPaused (run (manager_init idle_engine) [Speak hello_options, OnStart 0, Pause]) \<and>
   isPlaying (run (manager_init idle_engine) [Speak hello_options, OnStart 0, Pause]) \<and>
   pause (run (manager_init idle_engine) [Speak hello_options, OnStart 0, Pause]) =
     run (manager_init idle_engine) [Speak hello_options, OnStart 0, Pause] \<and>
   \<not> isPlaying (run (manager_init idle_engine) [Speak hello_options, OnStart 0, OnEnd 0]) \<and>
   \<not> isPaused (run (manager_init idle_engine) [Speak hello_options, OnStart 0, OnEnd 0]) \<and>
   pause (run (manager_init idle_engine) [Speak hello_options, OnStart 0, OnEnd 0]) =
     run (manager_init idle_engine) [Speak hello_options, OnStart 0, OnEnd 0] \<and>
   resume (run (manager_init idle_engine) [Speak hello_options, OnStart 0, OnEnd 0]) =
     run (manager_init idle_engine) [Speak hello_options, OnStart 0, OnEnd 0]"
proof -
  have a: "isPaused (run (manager_init idle_engine) [Speak hello_options, OnStart 0, Pause])"
    "isPlaying (run (manager_init idle_engine) [Speak hello_options, OnStart 0, Pause])"
    by (simp_all add: run_def manager_init_def speak_def onstart_def pause_def Let_def)
  have b: "\<not> isPlaying (run (manager_init idle_engine) [Speak hello_options, OnStart 0, OnEnd 0])"
    "\<not> isPaused (run (manager_init idle_engine) [Speak hello_options, OnStart 0, OnEnd 0])"
    by (simp_all add: run_def manager_init_def speak_def onstart_def onend_def Let_def)
  show ?thesis
    using manager_states [of idle_engine "[Speak hello_options, OnStart 0, Pause]"]
          manager_states [of idle_engine "[Speak hello_options, OnStart 0, OnEnd 0]"]
          a b
    by blast
qed

end
